theory Spec2Isabelle
  imports Complex_Main "HOL-Library.Product_Lexorder" "HOL-Library.List_Lexorder"
begin

section \<open>Tables\<close>

text \<open>
  The dashboard of \<^verbatim>\<open>final_gst.py\<close> keeps one pandas data frame per upload slot and
  computes sums and grouped sums over it. A data frame is modelled as a header (the list
  of column names) and a list of rows; a row holds one cell per column, in header order.

  A cell is a missing value (\<open>NaN\<close>, which also stands for \<open>None\<close> and \<open>NaT\<close>), a number,
  a text, a time stamp (year, month, day, nanosecond of the day) or a monthly period
  (year, month). Numbers are exact rationals: the rounding error of \<open>float64\<close> addition is
  not part of the model, the structure of every computation is.
\<close>

datatype cell = NaN | Num rat | Str string | Ts int int int int | Per int int

datatype error = KeyError string | TypeError | AttributeError

record table =
  columns :: "string list"
  rows :: "cell list list"

text \<open>\<open>len(df)\<close> and \<open>df.empty\<close> (an axis of length 0).\<close>

definition len :: "table \<Rightarrow> nat" where
  "len t = length (rows t)"

definition empty :: "table \<Rightarrow> bool" where
  "empty t = (rows t = [] \<or> columns t = [])"

fun index_of :: "string \<Rightarrow> string list \<Rightarrow> nat option" where
  "index_of c [] = None"
| "index_of c (x # xs) = (if x = c then Some 0 else map_option Suc (index_of c xs))"

definition cell_at :: "cell list \<Rightarrow> nat \<Rightarrow> cell" where
  "cell_at r i = (if i < length r then r ! i else NaN)"

text \<open>\<open>df[c]\<close>: the values of column \<open>c\<close>, or \<open>KeyError\<close> when the header lacks \<open>c\<close>.\<close>

definition get_column :: "table \<Rightarrow> string \<Rightarrow> error + cell list" where
  "get_column t c =
     (case index_of c (columns t) of
        None \<Rightarrow> Inl (KeyError c)
      | Some i \<Rightarrow> Inr (map (\<lambda>r. cell_at r i) (rows t)))"

text \<open>
  \<open>df[c] = vs\<close>: overwrite column \<open>c\<close> where it exists, append it otherwise. A row is
  first brought to the width of the header, the absent cells being missing values (as
  \<open>read_csv\<close> fills a short line), so that the new cell lands in its column.
\<close>

definition pad :: "nat \<Rightarrow> cell list \<Rightarrow> cell list" where
  "pad n r = take n r @ replicate (n - length r) NaN"

definition set_column :: "table \<Rightarrow> string \<Rightarrow> cell list \<Rightarrow> table" where
  "set_column t c vs =
     (let n = length (columns t)
      in case index_of c (columns t) of
           None \<Rightarrow> t\<lparr>columns := columns t @ [c],
                     rows := map (\<lambda>(r, v). pad n r @ [v]) (zip (rows t) vs)\<rparr>
         | Some i \<Rightarrow> t\<lparr>rows := map (\<lambda>(r, v). (pad n r)[i := v]) (zip (rows t) vs)\<rparr>)"

text \<open>\<open>df[df[c] == s]\<close>: the rows whose cell in column \<open>c\<close> is the text \<open>s\<close>, as a new table.\<close>

definition select_eq :: "table \<Rightarrow> string \<Rightarrow> string \<Rightarrow> error + table" where
  "select_eq t c s =
     (case index_of c (columns t) of
        None \<Rightarrow> Inl (KeyError c)
      | Some i \<Rightarrow> Inr (t\<lparr>rows := filter (\<lambda>r. cell_at r i = Str s) (rows t)\<rparr>))"

subsection \<open>Sums\<close>

text \<open>
  \<open>Series.sum()\<close> skips missing values and adds the numbers; the sum of no numbers is 0.
  A column of time stamps or periods has no sum (pandas raises \<open>TypeError\<close>). For a column
  of texts pandas either raises \<open>TypeError\<close> or concatenates the texts; the model reports
  \<open>TypeError\<close> for both, since neither is a numeric total.
\<close>

fun nansum :: "cell list \<Rightarrow> error + rat" where
  "nansum [] = Inr 0"
| "nansum (NaN # cs) = nansum cs"
| "nansum (Num x # cs) = (case nansum cs of Inl e \<Rightarrow> Inl e | Inr s \<Rightarrow> Inr (x + s))"
| "nansum (_ # cs) = Inl TypeError"



definition column_sum :: "table \<Rightarrow> string \<Rightarrow> error + rat" where
  "column_sum t c = (case get_column t c of Inl e \<Rightarrow> Inl e | Inr vs \<Rightarrow> nansum vs)"

text \<open>Run a fallible function over a list, stopping at the first error.\<close>

fun try_map :: "('a \<Rightarrow> error + 'b) \<Rightarrow> 'a list \<Rightarrow> error + 'b list" where
  "try_map f [] = Inr []"
| "try_map f (x # xs) =
     (case f x of
        Inl e \<Rightarrow> Inl e
      | Inr y \<Rightarrow> (case try_map f xs of Inl e \<Rightarrow> Inl e | Inr ys \<Rightarrow> Inr (y # ys)))"

subsection \<open>Grouped sums\<close>

text \<open>
  \<open>df.groupby(key).agg({c1: 'sum', c2: 'sum', c3: 'sum'})\<close>. The defaults of
  \<open>groupby\<close> apply: rows whose key is missing are left out (\<open>dropna=True\<close>) and the groups
  come in ascending key order (\<open>sort=True\<close>). The result has one row per key, holding the
  sums of the named columns over the rows of that key, in the order the columns are named.
\<close>

type_synonym grouped = "(cell \<times> rat list) list"

fun cell_key :: "cell \<Rightarrow> nat \<times> rat \<times> int list" where
  "cell_key NaN = (0, 0, [])"
| "cell_key (Num x) = (1, x, [])"
| "cell_key (Str s) = (2, 0, map (\<lambda>c. int (of_char c)) s)"
| "cell_key (Ts y m d n) = (3, 0, [y, m, d, n])"
| "cell_key (Per y m) = (4, 0, [y, m])"

definition group_keys :: "cell list \<Rightarrow> cell list" where
  "group_keys ks = sort_key cell_key (remdups (filter (\<lambda>k. k \<noteq> NaN) ks))"

definition group_sum :: "cell list \<Rightarrow> cell \<Rightarrow> cell list \<Rightarrow> error + rat" where
  "group_sum ks k vs = nansum (map snd (filter (\<lambda>(k', v). k' = k) (zip ks vs)))"

definition groupby_sum :: "table \<Rightarrow> string \<Rightarrow> string list \<Rightarrow> error + grouped" where
  "groupby_sum t key cs =
     (case get_column t key of
        Inl e \<Rightarrow> Inl e
      | Inr ks \<Rightarrow>
          (case try_map (get_column t) cs of
             Inl e \<Rightarrow> Inl e
           | Inr vss \<Rightarrow>
               try_map (\<lambda>k. case try_map (group_sum ks k) vss of
                               Inl e \<Rightarrow> Inl e
                             | Inr vs \<Rightarrow> Inr (k, vs))
                       (group_keys ks)))"

text \<open>
  \<open>DataFrame.round(2)\<close>: every number to the nearest multiple of 0.01, a tie to the even
  neighbour.
\<close>

definition rint :: "rat \<Rightarrow> int" where
  "rint x =
     (let f = \<lfloor>x\<rfloor>; d = x - of_int f
      in if d < 1 / 2 then f else if 1 / 2 < d then f + 1 else if even f then f else f + 1)"

definition round2 :: "rat \<Rightarrow> rat" where
  "round2 x = of_int (rint (x * 100)) / 100"

definition round_grouped :: "grouped \<Rightarrow> grouped" where
  "round_grouped g = map (\<lambda>(k, vs). (k, map round2 vs)) g"

definition grouped_sums_rounded :: "table \<Rightarrow> string \<Rightarrow> string list \<Rightarrow> error + grouped" where
  "grouped_sums_rounded t key cs =
     (case groupby_sum t key cs of Inl e \<Rightarrow> Inl e | Inr g \<Rightarrow> Inr (round_grouped g))"

subsection \<open>Dates\<close>

text \<open>
  \<open>Series.dt.to_period('M')\<close>: a time stamp becomes its month, a missing value stays
  missing; the \<open>.dt\<close> accessor exists only on a column of time stamps, so a number or a
  text in the column raises \<open>AttributeError\<close>. (A column of missing values only counts as
  a column of time stamps: that is what the loader makes of a date column.)
\<close>

fun to_period_M :: "cell list \<Rightarrow> error + cell list" where
  "to_period_M [] = Inr []"
| "to_period_M (NaN # cs) =
     (case to_period_M cs of Inl e \<Rightarrow> Inl e | Inr ps \<Rightarrow> Inr (NaN # ps))"
| "to_period_M (Ts y m d n # cs) =
     (case to_period_M cs of Inl e \<Rightarrow> Inl e | Inr ps \<Rightarrow> Inr (Per y m # ps))"
| "to_period_M (_ # cs) = Inl AttributeError"

section \<open>The analyzer\<close>

text \<open>
  \<open>class EcommerceAnalyzer\<close>: the four tables of a session, each absent until loaded.
\<close>

record analyzer =
  meesho_sales :: "table option"
  meesho_returns :: "table option"
  flipkart_data :: "table option"
  amazon_data :: "table option"

definition init :: analyzer where
  "init = \<lparr>meesho_sales = None, meesho_returns = None, flipkart_data = None,
            amazon_data = None\<rparr>"

text \<open>
  The result of an analysis is a Python dictionary filled key by key; a key that was never
  set is absent. It is modelled as a record with one optional field per key that either
  analyzer may set.
\<close>

record analysis =
  total_orders :: "nat option"
  total_sales :: "rat option"
  total_tax :: "rat option"
  taxable_sales :: "rat option"
  state_wise :: "grouped option"
  monthly :: "grouped option"
  product_performance :: "grouped option"
  tax_rate_analysis :: "grouped option"
  total_shipments :: "nat option"
  total_refunds :: "nat option"
  total_cancellations :: "nat option"
  tax_exclusive_gross :: "rat option"
  total_tcs :: "rat option"

definition no_keys :: analysis where
  "no_keys = \<lparr>total_orders = None, total_sales = None, total_tax = None,
               taxable_sales = None, state_wise = None, monthly = None,
               product_performance = None, tax_rate_analysis = None,
               total_shipments = None, total_refunds = None, total_cancellations = None,
               tax_exclusive_gross = None, total_tcs = None\<rparr>"

subsection \<open>Meesho\<close>

definition meesho_sums :: "string list" where
  "meesho_sums = [''total_invoice_value'', ''tax_amount'', ''quantity'']"

text \<open>Lines 128 to 141: the basic metrics and the state-wise table.\<close>

definition meesho_basic :: "table \<Rightarrow> error + analysis" where
  "meesho_basic t =
     (case column_sum t ''total_invoice_value'' of
        Inl e \<Rightarrow> Inl e
      | Inr sales \<Rightarrow>
     (case column_sum t ''tax_amount'' of
        Inl e \<Rightarrow> Inl e
      | Inr tax \<Rightarrow>
     (case column_sum t ''total_taxable_sale_value'' of
        Inl e \<Rightarrow> Inl e
      | Inr taxable \<Rightarrow>
     (case grouped_sums_rounded t ''end_customer_state_new'' meesho_sums of
        Inl e \<Rightarrow> Inl e
      | Inr g \<Rightarrow>
          Inr (no_keys\<lparr>total_orders := Some (len t), total_sales := Some sales,
                       total_tax := Some tax, taxable_sales := Some taxable,
                       state_wise := Some g\<rparr>)))))"

text \<open>
  Lines 144 to 150: the monthly table. The month column is stored in the analyzer's own
  table, so the block returns the table as it leaves it, also when it raises.
\<close>

definition meesho_monthly :: "table \<Rightarrow> analysis \<Rightarrow> (error + analysis) \<times> table" where
  "meesho_monthly t a =
     (if ''order_date'' \<in> set (columns t) then
        (case get_column t ''order_date'' of
           Inl e \<Rightarrow> (Inl e, t)
         | Inr ds \<Rightarrow>
        (case to_period_M ds of
           Inl e \<Rightarrow> (Inl e, t)
         | Inr ps \<Rightarrow>
             (let t' = set_column t ''month'' ps
              in case grouped_sums_rounded t' ''month'' meesho_sums of
                   Inl e \<Rightarrow> (Inl e, t')
                 | Inr g \<Rightarrow> (Inr (a\<lparr>monthly := Some g\<rparr>), t'))))
      else (Inr a, t))"

text \<open>Lines 153 to 164: the tables by product code and by tax rate.\<close>

definition meesho_rest :: "table \<Rightarrow> analysis \<Rightarrow> error + analysis" where
  "meesho_rest t a =
     (case grouped_sums_rounded t ''hsn_code'' meesho_sums of
        Inl e \<Rightarrow> Inl e
      | Inr p \<Rightarrow>
     (case grouped_sums_rounded t ''gst_rate'' meesho_sums of
        Inl e \<Rightarrow> Inl e
      | Inr r \<Rightarrow> Inr (a\<lparr>product_performance := Some p, tax_rate_analysis := Some r\<rparr>)))"

text \<open>
  \<open>analyze_meesho_data\<close>: \<open>None\<close> without a table; otherwise the three blocks in turn. The
  function returns its result (or the exception it raises) and the analyzer it leaves.
\<close>

definition analyze_meesho_data :: "analyzer \<Rightarrow> (error + analysis option) \<times> analyzer" where
  "analyze_meesho_data st =
     (case meesho_sales st of
        None \<Rightarrow> (Inr None, st)
      | Some t \<Rightarrow>
          (case meesho_basic t of
             Inl e \<Rightarrow> (Inl e, st)
           | Inr a \<Rightarrow>
               (case meesho_monthly t a of
                  (Inl e, t') \<Rightarrow> (Inl e, st\<lparr>meesho_sales := Some t'\<rparr>)
                | (Inr a', t') \<Rightarrow>
                    (case meesho_rest t' a' of
                       Inl e \<Rightarrow> (Inl e, st\<lparr>meesho_sales := Some t'\<rparr>)
                     | Inr a'' \<Rightarrow> (Inr (Some a''), st\<lparr>meesho_sales := Some t'\<rparr>)))))"

subsection \<open>Amazon\<close>

definition amazon_sums :: "string list" where
  "amazon_sums = [''Invoice Amount'', ''Total Tax Amount'', ''Quantity'']"

definition tcs_columns :: "string list" where
  "tcs_columns = [''Tcs Igst Amount'', ''Tcs Cgst Amount'', ''Tcs Sgst Amount'',
                  ''Tcs Utgst Amount'']"

text \<open>Lines 198 to 204: the monthly table; the month column goes into the copy \<open>shipments\<close>.\<close>

definition amazon_monthly :: "table \<Rightarrow> analysis \<Rightarrow> error + analysis \<times> table" where
  "amazon_monthly s a =
     (if ''Order Date'' \<in> set (columns s) then
        (case get_column s ''Order Date'' of
           Inl e \<Rightarrow> Inl e
         | Inr ds \<Rightarrow>
        (case to_period_M ds of
           Inl e \<Rightarrow> Inl e
         | Inr ps \<Rightarrow>
             (let s' = set_column s ''month'' ps
              in case grouped_sums_rounded s' ''month'' amazon_sums of
                   Inl e \<Rightarrow> Inl e
                 | Inr g \<Rightarrow> Inr (a\<lparr>monthly := Some g\<rparr>, s'))))
      else Inr (a, s))"

text \<open>Lines 186 to 219: what is computed when there is at least one shipment.\<close>

definition amazon_shipment_metrics :: "table \<Rightarrow> analysis \<Rightarrow> error + analysis" where
  "amazon_shipment_metrics s a =
     (case column_sum s ''Invoice Amount'' of
        Inl e \<Rightarrow> Inl e
      | Inr sales \<Rightarrow>
     (case column_sum s ''Total Tax Amount'' of
        Inl e \<Rightarrow> Inl e
      | Inr tax \<Rightarrow>
     (case column_sum s ''Tax Exclusive Gross'' of
        Inl e \<Rightarrow> Inl e
      | Inr gross \<Rightarrow>
     (case grouped_sums_rounded s ''Ship To State'' amazon_sums of
        Inl e \<Rightarrow> Inl e
      | Inr g \<Rightarrow>
     (case amazon_monthly s (a\<lparr>total_sales := Some sales, total_tax := Some tax,
                               tax_exclusive_gross := Some gross, state_wise := Some g\<rparr>) of
        Inl e \<Rightarrow> Inl e
      | Inr (a', s') \<Rightarrow>
     (case grouped_sums_rounded s' ''Hsn/sac'' amazon_sums of
        Inl e \<Rightarrow> Inl e
      | Inr p \<Rightarrow>
     (case try_map (column_sum s') (filter (\<lambda>c. c \<in> set (columns s')) tcs_columns) of
        Inl e \<Rightarrow> Inl e
      | Inr tcs_data \<Rightarrow>
          Inr (a'\<lparr>product_performance := Some p,
                  total_tcs := Some (sum_list tcs_data)\<rparr>))))))))"

text \<open>
  \<open>analyze_amazon_data\<close>: the rows are selected by transaction type into three new tables
  (a selection by a boolean mask is a copy), and the sums are taken over the shipments. The
  analyzer's table is never assigned to, so the analyzer is returned as it came.
\<close>

definition analyze_amazon_data :: "analyzer \<Rightarrow> (error + analysis option) \<times> analyzer" where
  "analyze_amazon_data st =
     (case amazon_data st of
        None \<Rightarrow> (Inr None, st)
      | Some t \<Rightarrow>
     (case select_eq t ''Transaction Type'' ''Shipment'' of
        Inl e \<Rightarrow> (Inl e, st)
      | Inr shipments \<Rightarrow>
     (case select_eq t ''Transaction Type'' ''Refund'' of
        Inl e \<Rightarrow> (Inl e, st)
      | Inr refunds \<Rightarrow>
     (case select_eq t ''Transaction Type'' ''Cancel'' of
        Inl e \<Rightarrow> (Inl e, st)
      | Inr cancellations \<Rightarrow>
          (let a = no_keys\<lparr>total_shipments := Some (len shipments),
                           total_refunds := Some (len refunds),
                           total_cancellations := Some (len cancellations)\<rparr>
           in if \<not> empty shipments then
                (case amazon_shipment_metrics shipments a of
                   Inl e \<Rightarrow> (Inl e, st)
                 | Inr a' \<Rightarrow> (Inr (Some a'), st))
              else (Inr (Some a), st))))))"

subsection \<open>The comparison across platforms\<close>

record comparison_row =
  Sales :: rat
  Tax :: rat
  Orders :: nat

text \<open>The truth value of a dictionary: it has at least one key.\<close>

definition has_keys :: "analysis \<Rightarrow> bool" where
  "has_keys a =
     (total_orders a \<noteq> None \<or> total_sales a \<noteq> None \<or> total_tax a \<noteq> None \<or>
      taxable_sales a \<noteq> None \<or> state_wise a \<noteq> None \<or> monthly a \<noteq> None \<or>
      product_performance a \<noteq> None \<or> tax_rate_analysis a \<noteq> None \<or>
      total_shipments a \<noteq> None \<or> total_refunds a \<noteq> None \<or>
      total_cancellations a \<noteq> None \<or> tax_exclusive_gross a \<noteq> None \<or>
      total_tcs a \<noteq> None)"

text \<open>\<open>d[k]\<close> raises \<open>KeyError\<close> on an absent key; \<open>d.get(k, 0)\<close> gives 0 instead.\<close>

definition item :: "string \<Rightarrow> 'a option \<Rightarrow> error + 'a" where
  "item k v = (case v of None \<Rightarrow> Inl (KeyError k) | Some x \<Rightarrow> Inr x)"

definition get_or_0 :: "'a::zero option \<Rightarrow> 'a" where
  "get_or_0 v = (case v of None \<Rightarrow> 0 | Some x \<Rightarrow> x)"

type_synonym comparisons = "(string \<times> comparison_row) list"

text \<open>Lines 228 to 234.\<close>

definition meesho_row :: "analysis option \<Rightarrow> error + comparisons" where
  "meesho_row r =
     (case r of
        None \<Rightarrow> Inr []
      | Some a \<Rightarrow>
          if has_keys a then
            (case item ''total_sales'' (total_sales a) of
               Inl e \<Rightarrow> Inl e
             | Inr s \<Rightarrow>
            (case item ''total_tax'' (total_tax a) of
               Inl e \<Rightarrow> Inl e
             | Inr x \<Rightarrow>
            (case item ''total_orders'' (total_orders a) of
               Inl e \<Rightarrow> Inl e
             | Inr n \<Rightarrow> Inr [(''Meesho'', \<lparr>Sales = s, Tax = x, Orders = n\<rparr>)])))
          else Inr [])"

text \<open>Lines 237 to 243.\<close>

definition amazon_row :: "analysis option \<Rightarrow> comparisons" where
  "amazon_row r =
     (case r of
        None \<Rightarrow> []
      | Some a \<Rightarrow>
          if has_keys a then
            [(''Amazon'', \<lparr>Sales = get_or_0 (total_sales a), Tax = get_or_0 (total_tax a),
                           Orders = get_or_0 (total_shipments a)\<rparr>)]
          else [])"

text \<open>Lines 246 to 251.\<close>

definition flipkart_row :: "table option \<Rightarrow> comparisons" where
  "flipkart_row d =
     (case d of
        None \<Rightarrow> []
      | Some t \<Rightarrow>
          if \<not> empty t then [(''Flipkart'', \<lparr>Sales = 0, Tax = 0, Orders = len t\<rparr>)]
          else [])"

text \<open>
  \<open>create_comparison_dashboard\<close>: the dictionary of rows, in insertion order, as an
  association list from the platform's name. Both analyzers run inside; an exception of
  either leaves the function.
\<close>

definition create_comparison_dashboard :: "analyzer \<Rightarrow> (error + comparisons) \<times> analyzer" where
  "create_comparison_dashboard st =
     (case analyze_meesho_data st of
        (Inl e, st1) \<Rightarrow> (Inl e, st1)
      | (Inr meesho_analysis, st1) \<Rightarrow>
          (case meesho_row meesho_analysis of
             Inl e \<Rightarrow> (Inl e, st1)
           | Inr c1 \<Rightarrow>
               (case analyze_amazon_data st1 of
                  (Inl e, st2) \<Rightarrow> (Inl e, st2)
                | (Inr amazon_analysis, st2) \<Rightarrow>
                    (Inr (c1 @ amazon_row amazon_analysis @ flipkart_row (flipkart_data st2)),
                     st2))))"

section \<open>The loader\<close>

text \<open>
  \<open>Index.str.strip()\<close> on the header: white space is removed from both ends of every
  column name.
\<close>

definition is_space :: "char \<Rightarrow> bool" where
  "is_space c = (let n = (of_char c :: nat) in (9 \<le> n \<and> n \<le> 13) \<or> (28 \<le> n \<and> n \<le> 32))"

definition strip :: "string \<Rightarrow> string" where
  "strip s = rev (dropWhile is_space (rev (dropWhile is_space s)))"

definition strip_columns :: "table \<Rightarrow> table" where
  "strip_columns t = t\<lparr>columns := map strip (columns t)\<rparr>"

text \<open>
  \<open>pd.to_datetime(column, errors='coerce')\<close>. What counts as a date is decided by the
  library's parser, a parameter \<open>parse\<close> here: it gives the time stamp of a cell, or
  nothing. With \<open>errors='coerce'\<close> a cell that does not parse becomes the missing value
  instead of raising.
\<close>

type_synonym date_parser = "cell \<Rightarrow> (int \<times> int \<times> int \<times> int) option"

definition to_datetime :: "date_parser \<Rightarrow> cell list \<Rightarrow> cell list" where
  "to_datetime parse cs =
     map (\<lambda>c. case parse c of None \<Rightarrow> NaN | Some (y, m, d, n) \<Rightarrow> Ts y m d n) cs"

definition convert_dates :: "date_parser \<Rightarrow> string \<Rightarrow> table \<Rightarrow> table" where
  "convert_dates parse c t =
     (if c \<in> set (columns t) then
        (case get_column t c of
           Inl e \<Rightarrow> t
         | Inr vs \<Rightarrow> set_column t c (to_datetime parse vs))
      else t)"

text \<open>
  \<open>pd.read_csv\<close> is a parameter as well: from the uploaded file it gives a table, or the
  text of the exception it raises. What the loader shows on the page is returned as a
  list of messages.
\<close>

datatype message = Error string | Warning string

type_synonym 'f csv_reader = "'f \<Rightarrow> string + table"


definition load_flipkart_data ::
  "'f csv_reader \<Rightarrow> 'f \<Rightarrow> analyzer \<Rightarrow> bool \<times> message list \<times> analyzer"
where
  "load_flipkart_data read_csv file st =
     (case read_csv file of
        Inl e \<Rightarrow> (False, [Error (''Error loading Flipkart data: '' @ e)], st)
      | Inr t \<Rightarrow> (True, [], st\<lparr>flipkart_data := Some (strip_columns t)\<rparr>))"



text \<open>A grouped table whose numbers all have at most two decimal places.\<close>

definition rounded :: "grouped option \<Rightarrow> bool" where
  "rounded g =
     (case g of
        None \<Rightarrow> True
      | Some rs \<Rightarrow> list_all (\<lambda>(k, vs). list_all (\<lambda>v. round2 v = v) vs) rs)"

text \<open>
  A grouped table \<open>g\<close> has exactly one group per value of the key column \<open>ks\<close> that is
  not missing.
\<close>

definition groups_of :: "grouped \<Rightarrow> cell list \<Rightarrow> bool" where
  "groups_of g ks \<longleftrightarrow>
     distinct (map fst g) \<and> set (map fst g) = set (filter (\<lambda>k. k \<noteq> NaN) ks)"





section \<open>Example tables\<close>

text \<open>A Flipkart report of two orders, and another one with other amounts.\<close>

definition flipkart_example :: table where
  "flipkart_example =
     \<lparr>columns = [''Order Id'', ''Taxable Value''],
      rows = [[Str ''OD1'', Num 500], [Str ''OD2'', Num 250]]\<rparr>"

definition flipkart_other :: table where
  "flipkart_other =
     \<lparr>columns = [''Order Id'', ''Taxable Value''],
      rows = [[Str ''OD1'', Num 7], [Str ''OD2'', NaN]]\<rparr>"

text \<open>
  Meesho and Amazon reports with every column the analyzers read, and a Meesho order whose
  amounts have three decimal places.
\<close>

definition meesho_columns :: "string list" where
  "meesho_columns = [''total_invoice_value'', ''tax_amount'', ''total_taxable_sale_value'',
                     ''end_customer_state_new'', ''quantity'', ''hsn_code'', ''gst_rate'',
                     ''order_date'']"

definition meesho_example :: table where
  "meesho_example =
     \<lparr>columns = meesho_columns,
      rows = [[Num 100, Num 18, Num 82, Str ''UP'', Num 1, Num 6109, Num 18, Ts 2024 1 5 0],
              [Num 50, Num 9, Num 41, Str ''UP'', Num 2, Num 6109, Num 18, Ts 2024 1 20 0],
              [Num 200, Num 36, Num 164, Str ''MH'', Num 1, Num 6204, Num 18, Ts 2024 2 3 0]]\<rparr>"



definition amazon_columns :: "string list" where
  "amazon_columns = [''Transaction Type'', ''Invoice Amount'', ''Total Tax Amount'',
                     ''Tax Exclusive Gross'', ''Ship To State'', ''Quantity'', ''Hsn/sac'',
                     ''Order Date'', ''Tcs Igst Amount'']"

definition amazon_example :: table where
  "amazon_example =
     \<lparr>columns = amazon_columns,
      rows = [[Str ''Shipment'', Num 100, Num 18, Num 82, Str ''DELHI'', Num 1, Num 6109,
               Ts 2024 1 5 0, Num 1],
              [Str ''Shipment'', Num 200, Num 36, Num 164, Str ''KERALA'', Num 2, Num 6204,
               Ts 2024 2 3 0, Num 2],
              [Str ''Refund'', Num 50, Num 9, Num 41, Str ''DELHI'', Num 1, Num 6109,
               Ts 2024 2 9 0, Num (1 / 2)]]\<rparr>"

definition example_session :: analyzer where
  "example_session = init\<lparr>meesho_sales := Some meesho_example, amazon_data := Some amazon_example\<rparr>"

text \<open>What the analyzers compute on the example session.\<close>

definition meesho_example_analysis :: analysis where
  "meesho_example_analysis =
     \<lparr>total_orders = Some 3, total_sales = Some 350, total_tax = Some 63,
      taxable_sales = Some 287,
      state_wise = Some [(Str ''MH'', [200, 36, 1]), (Str ''UP'', [150, 27, 3])],
      monthly = Some [(Per 2024 1, [150, 27, 3]), (Per 2024 2, [200, 36, 1])],
      product_performance = Some [(Num 6109, [150, 27, 3]), (Num 6204, [200, 36, 1])],
      tax_rate_analysis = Some [(Num 18, [350, 63, 4])],
      total_shipments = None, total_refunds = None, total_cancellations = None,
      tax_exclusive_gross = None, total_tcs = None\<rparr>"

definition meesho_example_after :: table where
  "meesho_example_after =
     \<lparr>columns = meesho_columns @ [''month''],
      rows = [[Num 100, Num 18, Num 82, Str ''UP'', Num 1, Num 6109, Num 18, Ts 2024 1 5 0,
               Per 2024 1],
              [Num 50, Num 9, Num 41, Str ''UP'', Num 2, Num 6109, Num 18, Ts 2024 1 20 0,
               Per 2024 1],
              [Num 200, Num 36, Num 164, Str ''MH'', Num 1, Num 6204, Num 18, Ts 2024 2 3 0,
               Per 2024 2]]\<rparr>"

definition amazon_example_analysis :: analysis where
  "amazon_example_analysis =
     \<lparr>total_orders = None, total_sales = Some 300, total_tax = Some 54,
      taxable_sales = None,
      state_wise = Some [(Str ''DELHI'', [100, 18, 1]), (Str ''KERALA'', [200, 36, 2])],
      monthly = Some [(Per 2024 1, [100, 18, 1]), (Per 2024 2, [200, 36, 2])],
      product_performance = Some [(Num 6109, [100, 18, 1]), (Num 6204, [200, 36, 2])],
      tax_rate_analysis = None, total_shipments = Some 2, total_refunds = Some 1,
      total_cancellations = Some 0, tax_exclusive_gross = Some 246, total_tcs = Some 3\<rparr>"

text \<open>A Meesho report whose third order has no state; the shipments of the Amazon report.\<close>

definition meesho_null_state :: table where
  "meesho_null_state =
     \<lparr>columns = meesho_columns,
      rows = [[Num 100, Num 18, Num 82, Str ''UP'', Num 1, Num 6109, Num 18, Ts 2024 1 5 0],
              [Num 50, Num 9, Num 41, Str ''UP'', Num 2, Num 6109, Num 18, Ts 2024 1 20 0],
              [Num 200, Num 36, Num 164, NaN, Num 1, Num 6204, Num 18, Ts 2024 2 3 0]]\<rparr>"

definition amazon_example_shipments :: table where
  "amazon_example_shipments =
     \<lparr>columns = amazon_columns,
      rows = [[Str ''Shipment'', Num 100, Num 18, Num 82, Str ''DELHI'', Num 1, Num 6109,
               Ts 2024 1 5 0, Num 1],
              [Str ''Shipment'', Num 200, Num 36, Num 164, Str ''KERALA'', Num 2, Num 6204,
               Ts 2024 2 3 0, Num 2]]\<rparr>"














section \<open>Properties of the table operations\<close>

lemma index_of_None: "index_of c xs = None \<longleftrightarrow> c \<notin> set xs"
  by (induction xs) auto

lemma index_of_Some: "index_of c xs = Some i \<Longrightarrow> i < length xs \<and> xs ! i = c"
  by (induction xs arbitrary: i) (auto split: if_splits)

lemma index_of_mem: "index_of c xs = Some i \<Longrightarrow> c \<in> set xs"
  by (metis index_of_None option.distinct(1))

lemma index_of_append_other: "c \<noteq> d \<Longrightarrow> index_of c (xs @ [d]) = index_of c xs"
  by (induction xs) auto

lemma index_of_append_new: "c \<notin> set xs \<Longrightarrow> index_of c (xs @ [c]) = Some (length xs)"
  by (induction xs) auto


lemma get_column_Inl: "get_column t c = Inl e \<Longrightarrow> e = KeyError c \<and> c \<notin> set (columns t)"
  by (auto simp: get_column_def index_of_None split: option.splits)

lemma get_column_length: "get_column t c = Inr vs \<Longrightarrow> length vs = length (rows t)"
  by (auto simp: get_column_def split: option.splits)

lemma length_pad [simp]: "length (pad n r) = n"
  by (simp add: pad_def)

lemma cell_at_pad: "i < n \<Longrightarrow> cell_at (pad n r) i = cell_at r i"
  by (auto simp: cell_at_def pad_def nth_append)


lemma columns_set_column:
  "columns (set_column t c vs) = (if c \<in> set (columns t) then columns t else columns t @ [c])"
  by (auto simp: set_column_def Let_def index_of_None dest: index_of_mem split: option.splits)

lemma get_column_set_column_other:
  assumes "c' \<noteq> c" "length vs = length (rows t)"
  shows "get_column (set_column t c vs) c' = get_column t c'"
proof (cases "index_of c' (columns t)")
  case None
  then show ?thesis using assms
    by (auto simp: get_column_def set_column_def Let_def index_of_append_other split: option.splits)
next
  case (Some j)
  then have j: "j < length (columns t)" using index_of_Some by blast
  have z: "map fst (zip (rows t) vs) = rows t" using assms by simp
  show ?thesis
  proof (cases "index_of c (columns t)")
    case None
    have "map (\<lambda>r. cell_at r j) (map (\<lambda>(r, v). pad (length (columns t)) r @ [v]) (zip (rows t) vs))
        = map (\<lambda>r. cell_at r j) (map fst (zip (rows t) vs))"
      using j by (auto simp: cell_at_def nth_append pad_def)
    then show ?thesis using Some None assms z
      by (simp add: get_column_def set_column_def Let_def index_of_append_other)
  next
    case (Some i)
    then have "i \<noteq> j" using \<open>index_of c' (columns t) = Some j\<close> assms(1) index_of_Some by blast
    then have "map (\<lambda>r. cell_at r j) (map (\<lambda>(r, v). (pad (length (columns t)) r)[i := v]) (zip (rows t) vs))
        = map (\<lambda>r. cell_at r j) (map fst (zip (rows t) vs))"
      using j by (auto simp: cell_at_def nth_append pad_def)
    then show ?thesis using Some \<open>index_of c' (columns t) = Some j\<close> z
      by (simp add: get_column_def set_column_def Let_def)
  qed
qed

lemma get_column_set_column_same:
  assumes "length vs = length (rows t)"
  shows "get_column (set_column t c vs) c = Inr vs"
proof (cases "index_of c (columns t)")
  case None
  then have n: "c \<notin> set (columns t)" by (simp add: index_of_None)
  have "map (\<lambda>r. cell_at r (length (columns t))) (map (\<lambda>(r, v). pad (length (columns t)) r @ [v]) (zip (rows t) vs))
     = map snd (zip (rows t) vs)"
    by (auto simp: cell_at_def nth_append)
  then show ?thesis using None n assms
    by (simp add: get_column_def set_column_def Let_def index_of_append_new)
next
  case (Some i)
  then have i: "i < length (columns t)" using index_of_Some by blast
  have "map (\<lambda>r. cell_at r i) (map (\<lambda>(r, v). (pad (length (columns t)) r)[i := v]) (zip (rows t) vs))
     = map snd (zip (rows t) vs)"
    using i by (auto simp: cell_at_def)
  then show ?thesis using Some assms
    by (simp add: get_column_def set_column_def Let_def)
qed


lemma try_map_Inr_iff:
  fixes f :: "'a \<Rightarrow> error + 'b"
  shows "try_map f xs = Inr ys \<longleftrightarrow> map f xs = map Inr ys"
proof (induction xs arbitrary: ys)
  case Nil
  then show ?case by auto
next
  case (Cons x xs)
  show ?case
  proof (cases "f x")
    case (Inl e)
    then show ?thesis by (cases ys) auto
  next
    case (Inr y)
    show ?thesis
    proof (cases "try_map f xs")
      case (Inl e)
      then have "map f xs \<noteq> map Inr zs" for zs using Cons.IH [of zs] by simp
      then show ?thesis using Inl \<open>f x = Inr y\<close> by (cases ys) auto
    next
      case Inr2: (Inr zs)
      then have "map f xs = map Inr zs" using Cons.IH by simp
      moreover have "map Inr (y # zs) = (map Inr ys :: (error + 'b) list) \<longleftrightarrow> y # zs = ys"
        by (rule inj_map_eq_map [OF inj_Inr])
      ultimately show ?thesis using Inr2 \<open>f x = Inr y\<close> by simp
    qed
  qed
qed

lemma try_map_length: "try_map f xs = Inr ys \<Longrightarrow> length ys = length xs"
  by (metis try_map_Inr_iff length_map)

lemma try_map_nth: "try_map f xs = Inr ys \<Longrightarrow> i < length xs \<Longrightarrow> f (xs ! i) = Inr (ys ! i)"
  by (metis try_map_Inr_iff length_map nth_map)

lemma try_map_Inl: "try_map f xs = Inl e \<Longrightarrow> \<exists>x \<in> set xs. f x = Inl e"
  by (induction xs) (auto split: sum.splits)





lemma nansum_Inl: "nansum cs = Inl e \<Longrightarrow> e = TypeError"
  by (induction cs rule: nansum.induct) (auto split: sum.splits)

lemma group_keys_distinct: "distinct (group_keys ks)"
  by (simp add: group_keys_def)

lemma group_keys_set: "set (group_keys ks) = set ks - {NaN}"
  by (auto simp: group_keys_def)

lemma groupby_sum_keys:
  assumes "groupby_sum t key cs = Inr g"
  shows "\<exists>ks. get_column t key = Inr ks \<and> map fst g = group_keys ks"
proof -
  from assms obtain ks vss where ks: "get_column t key = Inr ks"
    and vss: "try_map (get_column t) cs = Inr vss"
    and g: "try_map (\<lambda>k. case try_map (group_sum ks k) vss of Inl e \<Rightarrow> Inl e | Inr vs \<Rightarrow> Inr (k, vs))
                   (group_keys ks) = Inr g"
    by (auto simp: groupby_sum_def split: sum.splits)
  have "length g = length (group_keys ks)" using g try_map_length by blast
  moreover have "fst (g ! i) = group_keys ks ! i" if "i < length (group_keys ks)" for i
    using try_map_nth [OF g that] by (auto split: sum.splits) (metis fst_conv)
  ultimately have "map fst g = group_keys ks"
    by (intro nth_equalityI) auto
  with ks show ?thesis by blast
qed

lemma round_grouped_keys: "map fst (round_grouped g) = map fst g"
  by (induction g) (auto simp: round_grouped_def)

lemma grouped_sums_rounded_keys:
  assumes "grouped_sums_rounded t key cs = Inr g"
  shows "\<exists>ks. get_column t key = Inr ks \<and> map fst g = group_keys ks"
  using assms groupby_sum_keys
  by (fastforce simp: grouped_sums_rounded_def round_grouped_keys split: sum.splits)







section \<open>What a run of an analyzer has computed\<close>

lemma meesho_monthly_cases:
  assumes "meesho_monthly t a = (Inr a', t')"
  shows "(''order_date'' \<notin> set (columns t) \<and> t' = t \<and> a' = a) \<or>
         (\<exists>ds ps g. ''order_date'' \<in> set (columns t) \<and> get_column t ''order_date'' = Inr ds \<and>
            to_period_M ds = Inr ps \<and> t' = set_column t ''month'' ps \<and>
            grouped_sums_rounded t' ''month'' meesho_sums = Inr g \<and> a' = a\<lparr>monthly := Some g\<rparr>)"
  using assms
  by (auto simp: meesho_monthly_def Let_def split: if_splits sum.splits)

lemma monthly_no_keys [simp]: "monthly no_keys = None"
  by (simp add: no_keys_def)

text \<open>What a successful run of the Meesho analyzer has computed.\<close>

lemma analyze_meesho_data_Some:
  assumes "analyze_meesho_data st = (Inr (Some a), st')"
  shows "\<exists>t t' sales tax taxable g1 mo g3 g4.
           meesho_sales st = Some t \<and> st' = st\<lparr>meesho_sales := Some t'\<rparr> \<and>
           column_sum t ''total_invoice_value'' = Inr sales \<and>
           column_sum t ''tax_amount'' = Inr tax \<and>
           column_sum t ''total_taxable_sale_value'' = Inr taxable \<and>
           grouped_sums_rounded t ''end_customer_state_new'' meesho_sums = Inr g1 \<and>
           ((''order_date'' \<notin> set (columns t) \<and> t' = t \<and> mo = None) \<or>
            (\<exists>ds ps g. ''order_date'' \<in> set (columns t) \<and>
               get_column t ''order_date'' = Inr ds \<and> to_period_M ds = Inr ps \<and>
               t' = set_column t ''month'' ps \<and>
               grouped_sums_rounded t' ''month'' meesho_sums = Inr g \<and> mo = Some g)) \<and>
           grouped_sums_rounded t' ''hsn_code'' meesho_sums = Inr g3 \<and>
           grouped_sums_rounded t' ''gst_rate'' meesho_sums = Inr g4 \<and>
           a = no_keys\<lparr>total_orders := Some (len t), total_sales := Some sales,
                       total_tax := Some tax, taxable_sales := Some taxable,
                       state_wise := Some g1, monthly := mo,
                       product_performance := Some g3, tax_rate_analysis := Some g4\<rparr>"
proof -
  from assms obtain t where t: "meesho_sales st = Some t"
    by (auto simp: analyze_meesho_data_def split: option.splits)
  from assms t obtain a0 where a0: "meesho_basic t = Inr a0"
    by (auto simp: analyze_meesho_data_def split: sum.splits)
  from assms t a0 obtain a1 t' where m: "meesho_monthly t a0 = (Inr a1, t')"
    by (auto simp: analyze_meesho_data_def split: sum.splits prod.splits)
  from assms t a0 m have r: "meesho_rest t' a1 = Inr a" and st': "st' = st\<lparr>meesho_sales := Some t'\<rparr>"
    by (auto simp: analyze_meesho_data_def split: sum.splits)
  from a0 obtain sales tax taxable g1 where b:
    "column_sum t ''total_invoice_value'' = Inr sales"
    "column_sum t ''tax_amount'' = Inr tax"
    "column_sum t ''total_taxable_sale_value'' = Inr taxable"
    "grouped_sums_rounded t ''end_customer_state_new'' meesho_sums = Inr g1"
    "a0 = no_keys\<lparr>total_orders := Some (len t), total_sales := Some sales,
                       total_tax := Some tax, taxable_sales := Some taxable,
                       state_wise := Some g1\<rparr>"
    by (auto simp: meesho_basic_def split: sum.splits)
  have mon0: "monthly a0 = None" unfolding b(5) by simp
  have "a0\<lparr>monthly := monthly a0\<rparr> = a0" by simp
  then have same: "a0 = a0\<lparr>monthly := None\<rparr>" using mon0 by simp
  from meesho_monthly_cases [OF m] same obtain mo where mo: "a1 = a0\<lparr>monthly := mo\<rparr>"
    and cases: "(''order_date'' \<notin> set (columns t) \<and> t' = t \<and> mo = None) \<or>
            (\<exists>ds ps g. ''order_date'' \<in> set (columns t) \<and>
               get_column t ''order_date'' = Inr ds \<and> to_period_M ds = Inr ps \<and>
               t' = set_column t ''month'' ps \<and>
               grouped_sums_rounded t' ''month'' meesho_sums = Inr g \<and> mo = Some g)"
    by metis
  from r obtain g3 g4 where c:
    "grouped_sums_rounded t' ''hsn_code'' meesho_sums = Inr g3"
    "grouped_sums_rounded t' ''gst_rate'' meesho_sums = Inr g4"
    "a = a1\<lparr>product_performance := Some g3, tax_rate_analysis := Some g4\<rparr>"
    by (auto simp: meesho_rest_def split: sum.splits)
  note a' = c(3) [unfolded mo b(5)]
  show ?thesis
    using t st' b(1-4) cases c(1,2) a' by blast
qed

lemma amazon_monthly_cases:
  assumes "amazon_monthly s a = Inr (a', s')"
  shows "(''Order Date'' \<notin> set (columns s) \<and> s' = s \<and> a' = a) \<or>
         (\<exists>ds ps g. ''Order Date'' \<in> set (columns s) \<and> get_column s ''Order Date'' = Inr ds \<and>
            to_period_M ds = Inr ps \<and> s' = set_column s ''month'' ps \<and>
            grouped_sums_rounded s' ''month'' amazon_sums = Inr g \<and> a' = a\<lparr>monthly := Some g\<rparr>)"
  using assms
  by (auto simp: amazon_monthly_def Let_def split: if_splits sum.splits)

lemma amazon_shipment_metrics_Inr:
  assumes "amazon_shipment_metrics s a0 = Inr a"
  shows "\<exists>sales tax gross g1 a1 s' g3 tcs_data.
           column_sum s ''Invoice Amount'' = Inr sales \<and>
           column_sum s ''Total Tax Amount'' = Inr tax \<and>
           column_sum s ''Tax Exclusive Gross'' = Inr gross \<and>
           grouped_sums_rounded s ''Ship To State'' amazon_sums = Inr g1 \<and>
           amazon_monthly s (a0\<lparr>total_sales := Some sales, total_tax := Some tax,
                               tax_exclusive_gross := Some gross, state_wise := Some g1\<rparr>)
             = Inr (a1, s') \<and>
           grouped_sums_rounded s' ''Hsn/sac'' amazon_sums = Inr g3 \<and>
           try_map (column_sum s') (filter (\<lambda>c. c \<in> set (columns s')) tcs_columns) = Inr tcs_data \<and>
           a = a1\<lparr>product_performance := Some g3, total_tcs := Some (sum_list tcs_data)\<rparr>"
  using assms
  by (auto simp: amazon_shipment_metrics_def split: sum.splits prod.splits)

lemma analyze_amazon_data_Some:
  assumes "analyze_amazon_data st = (Inr (Some a), st')"
  shows "\<exists>t shipments refunds cancellations.
           amazon_data st = Some t \<and> st' = st \<and>
           select_eq t ''Transaction Type'' ''Shipment'' = Inr shipments \<and>
           select_eq t ''Transaction Type'' ''Refund'' = Inr refunds \<and>
           select_eq t ''Transaction Type'' ''Cancel'' = Inr cancellations \<and>
           (if \<not> empty shipments then
              amazon_shipment_metrics shipments
                (no_keys\<lparr>total_shipments := Some (len shipments),
                         total_refunds := Some (len refunds),
                         total_cancellations := Some (len cancellations)\<rparr>) = Inr a
            else a = no_keys\<lparr>total_shipments := Some (len shipments),
                         total_refunds := Some (len refunds),
                         total_cancellations := Some (len cancellations)\<rparr>)"
  using assms
  by (auto simp: analyze_amazon_data_def Let_def split: option.splits sum.splits if_splits)

lemma analyze_amazon_data_state: "snd (analyze_amazon_data st) = st"
  by (auto simp: analyze_amazon_data_def Let_def split: option.splits sum.splits if_splits)





lemma analyze_meesho_data_frame:
  "flipkart_data (snd (analyze_meesho_data st)) = flipkart_data st \<and>
   amazon_data (snd (analyze_meesho_data st)) = amazon_data st \<and>
   meesho_returns (snd (analyze_meesho_data st)) = meesho_returns st"
  by (auto simp: analyze_meesho_data_def split: option.splits sum.splits prod.splits)

section \<open>Properties of the comparison\<close>

lemma flipkart_row_lookup:
  assumes "''Flipkart'' \<notin> fst ` set c1"
  shows "map_of (c1 @ amazon_row r @ flipkart_row d) ''Flipkart'' = map_of (flipkart_row d) ''Flipkart''"
proof -
  have a: "map_of c1 ''Flipkart'' = None" using assms by (simp add: map_of_eq_None_iff)
  have b: "map_of (amazon_row r) ''Flipkart'' = None"
    by (simp add: amazon_row_def split: option.splits)
  show ?thesis by (simp add: map_add_def a b)
qed

lemma meesho_row_names: "meesho_row r = Inr c \<Longrightarrow> fst ` set c \<subseteq> {''Meesho''}"
  by (auto simp: meesho_row_def split: option.splits if_splits sum.splits)

lemma create_comparison_dashboard_Inr:
  assumes "create_comparison_dashboard st = (Inr cs, st')"
  shows "\<exists>ma st1 c1 aa.
           analyze_meesho_data st = (Inr ma, st1) \<and> meesho_row ma = Inr c1 \<and>
           analyze_amazon_data st1 = (Inr aa, st') \<and>
           cs = c1 @ amazon_row aa @ flipkart_row (flipkart_data st')"
  using assms
  by (auto simp: create_comparison_dashboard_def split: prod.splits sum.splits)

lemma analyze_meesho_data_flipkart:
  "analyze_meesho_data (st\<lparr>flipkart_data := d\<rparr>) =
     (fst (analyze_meesho_data st), (snd (analyze_meesho_data st))\<lparr>flipkart_data := d\<rparr>)"
  by (auto simp: analyze_meesho_data_def split: option.splits sum.splits prod.splits)

lemma analyze_amazon_data_flipkart:
  "analyze_amazon_data (st\<lparr>flipkart_data := d\<rparr>) =
     (fst (analyze_amazon_data st), (snd (analyze_amazon_data st))\<lparr>flipkart_data := d\<rparr>)"
  by (auto simp: analyze_amazon_data_def Let_def split: option.splits sum.splits prod.splits)


lemma create_comparison_dashboard_flipkart:
  assumes "flipkart_row (Some t2) = flipkart_row (flipkart_data st)"
  shows "fst (create_comparison_dashboard (st\<lparr>flipkart_data := Some t2\<rparr>)) =
         fst (create_comparison_dashboard st)"
proof -
  obtain r s where m: "analyze_meesho_data st = (r, s)" by fastforce
  obtain r2 s2 where a: "analyze_amazon_data s = (r2, s2)" by fastforce
  have "s2 = s" using analyze_amazon_data_state [of s] a by simp
  moreover have "flipkart_data s = flipkart_data st"
    using analyze_meesho_data_frame [of st] m by simp
  ultimately have fs: "flipkart_data s2 = flipkart_data st" by simp
  have m': "analyze_meesho_data (st\<lparr>flipkart_data := Some t2\<rparr>) = (r, s\<lparr>flipkart_data := Some t2\<rparr>)"
    using analyze_meesho_data_flipkart [where st = st and d = "Some t2"] m by simp
  have a': "analyze_amazon_data (s\<lparr>flipkart_data := Some t2\<rparr>) = (r2, s2\<lparr>flipkart_data := Some t2\<rparr>)"
    using analyze_amazon_data_flipkart [where st = s and d = "Some t2"] a by simp
  show ?thesis
    unfolding create_comparison_dashboard_def m m'
    using a a' fs assms by (auto split: sum.splits)
qed

section \<open>The Flipkart row of the comparison\<close>

text \<open>
  Claim C10. When the comparison is produced and a Flipkart table with at least one row
  is loaded, the row reported for Flipkart has Sales 0, Tax 0 and Orders equal to the
  number of rows of the table. No cell of the table is read: replacing the table by any
  other non-empty table with as many rows leaves the whole result of the comparison
  unchanged.
\<close>

theorem flipkart_row_zero:
  assumes "flipkart_data st = Some t" and "\<not> empty t"
  shows "(\<forall>cs st'. create_comparison_dashboard st = (Inr cs, st') \<longrightarrow>
            map_of cs ''Flipkart'' = Some \<lparr>Sales = 0, Tax = 0, Orders = len t\<rparr>) \<and>
         (\<forall>t2. \<not> empty t2 \<and> len t2 = len t \<longrightarrow>
            fst (create_comparison_dashboard (st\<lparr>flipkart_data := Some t2\<rparr>)) =
            fst (create_comparison_dashboard st))"
proof (intro conjI allI impI)
  fix cs st'
  assume run: "create_comparison_dashboard st = (Inr cs, st')"
  from create_comparison_dashboard_Inr [OF run] obtain ma st1 c1 aa where h:
    "analyze_meesho_data st = (Inr ma, st1)" "meesho_row ma = Inr c1"
    "analyze_amazon_data st1 = (Inr aa, st')"
    "cs = c1 @ amazon_row aa @ flipkart_row (flipkart_data st')" by blast
  have "st' = st1" using analyze_amazon_data_state [of st1] h(3) by simp
  moreover have "flipkart_data st1 = flipkart_data st"
    using analyze_meesho_data_frame [of st] h(1) by simp
  ultimately have f: "flipkart_data st' = Some t" using assms(1) by simp
  have "''Flipkart'' \<notin> fst ` set c1" using meesho_row_names [OF h(2)] by auto
  then have "map_of cs ''Flipkart'' = map_of (flipkart_row (flipkart_data st')) ''Flipkart''"
    unfolding h(4) by (rule flipkart_row_lookup)
  then show "map_of cs ''Flipkart'' = Some \<lparr>Sales = 0, Tax = 0, Orders = len t\<rparr>"
    using f assms(2) by (simp add: flipkart_row_def)
next
  fix t2
  assume "\<not> empty t2 \<and> len t2 = len t"
  then have "flipkart_row (Some t2) = flipkart_row (flipkart_data st)"
    using assms by (simp add: flipkart_row_def)
  then show "fst (create_comparison_dashboard (st\<lparr>flipkart_data := Some t2\<rparr>)) =
             fst (create_comparison_dashboard st)"
    by (rule create_comparison_dashboard_flipkart)
qed

theorem flipkart_row_zero_witness:
  "create_comparison_dashboard (init\<lparr>flipkart_data := Some flipkart_example\<rparr>) =
     (Inr [(''Flipkart'', \<lparr>Sales = 0, Tax = 0, Orders = 2\<rparr>)],
      init\<lparr>flipkart_data := Some flipkart_example\<rparr>) \<and>
   map_of [(''Flipkart'', \<lparr>Sales = 0, Tax = 0, Orders = 2\<rparr>)] ''Flipkart'' =
     Some \<lparr>Sales = 0, Tax = 0, Orders = len flipkart_example\<rparr> \<and>
   fst (create_comparison_dashboard (init\<lparr>flipkart_data := Some flipkart_other\<rparr>)) =
   fst (create_comparison_dashboard (init\<lparr>flipkart_data := Some flipkart_example\<rparr>))"
proof -
  let ?st = "init\<lparr>flipkart_data := Some flipkart_example\<rparr>"
  have run: "create_comparison_dashboard ?st =
     (Inr [(''Flipkart'', \<lparr>Sales = 0, Tax = 0, Orders = 2\<rparr>)], ?st)"
    by (simp add: create_comparison_dashboard_def analyze_meesho_data_def
        analyze_amazon_data_def init_def meesho_row_def amazon_row_def flipkart_row_def
        flipkart_example_def empty_def len_def)
  have h1: "flipkart_data ?st = Some flipkart_example" by simp
  have h2: "\<not> empty flipkart_example" by (simp add: empty_def flipkart_example_def)
  have h3: "\<not> empty flipkart_other \<and> len flipkart_other = len flipkart_example"
    by (simp add: empty_def len_def flipkart_other_def flipkart_example_def)
  from flipkart_row_zero [OF h1 h2] run h3 show ?thesis by auto
qed


lemma rounded_None [simp]: "rounded None"
  by (simp add: rounded_def)




text \<open>What a successful run of the Amazon analyzer has computed.\<close>

lemma amazon_shipment_metrics_full:
  assumes "amazon_shipment_metrics s a0 = Inr a" and "monthly a0 = None"
  shows "\<exists>sales tax gross g1 mo s' g3 tcs_data.
           column_sum s ''Invoice Amount'' = Inr sales \<and>
           column_sum s ''Total Tax Amount'' = Inr tax \<and>
           column_sum s ''Tax Exclusive Gross'' = Inr gross \<and>
           grouped_sums_rounded s ''Ship To State'' amazon_sums = Inr g1 \<and>
           ((''Order Date'' \<notin> set (columns s) \<and> s' = s \<and> mo = None) \<or>
            (\<exists>ds ps g. ''Order Date'' \<in> set (columns s) \<and>
               get_column s ''Order Date'' = Inr ds \<and> to_period_M ds = Inr ps \<and>
               s' = set_column s ''month'' ps \<and>
               grouped_sums_rounded s' ''month'' amazon_sums = Inr g \<and> mo = Some g)) \<and>
           grouped_sums_rounded s' ''Hsn/sac'' amazon_sums = Inr g3 \<and>
           try_map (column_sum s') (filter (\<lambda>c. c \<in> set (columns s')) tcs_columns) = Inr tcs_data \<and>
           a = a0\<lparr>total_sales := Some sales, total_tax := Some tax,
                   tax_exclusive_gross := Some gross, state_wise := Some g1, monthly := mo,
                   product_performance := Some g3, total_tcs := Some (sum_list tcs_data)\<rparr>"
proof -
  from amazon_shipment_metrics_Inr [OF assms(1)] obtain sales tax gross g1 a1 s' g3 tcs_data where h:
    "column_sum s ''Invoice Amount'' = Inr sales"
    "column_sum s ''Total Tax Amount'' = Inr tax"
    "column_sum s ''Tax Exclusive Gross'' = Inr gross"
    "grouped_sums_rounded s ''Ship To State'' amazon_sums = Inr g1"
    "amazon_monthly s (a0\<lparr>total_sales := Some sales, total_tax := Some tax,
                               tax_exclusive_gross := Some gross, state_wise := Some g1\<rparr>)
             = Inr (a1, s')"
    "grouped_sums_rounded s' ''Hsn/sac'' amazon_sums = Inr g3"
    "try_map (column_sum s') (filter (\<lambda>c. c \<in> set (columns s')) tcs_columns) = Inr tcs_data"
    "a = a1\<lparr>product_performance := Some g3, total_tcs := Some (sum_list tcs_data)\<rparr>"
    by blast
  define b where "b = a0\<lparr>total_sales := Some sales, total_tax := Some tax,
                               tax_exclusive_gross := Some gross, state_wise := Some g1\<rparr>"
  have "monthly b = None" unfolding b_def using assms(2) by simp
  moreover have "b\<lparr>monthly := monthly b\<rparr> = b" by simp
  ultimately have same: "b = b\<lparr>monthly := None\<rparr>" by simp
  from amazon_monthly_cases [OF h(5) [folded b_def]] same obtain mo where mo: "a1 = b\<lparr>monthly := mo\<rparr>"
    and cases: "(''Order Date'' \<notin> set (columns s) \<and> s' = s \<and> mo = None) \<or>
            (\<exists>ds ps g. ''Order Date'' \<in> set (columns s) \<and>
               get_column s ''Order Date'' = Inr ds \<and> to_period_M ds = Inr ps \<and>
               s' = set_column s ''month'' ps \<and>
               grouped_sums_rounded s' ''month'' amazon_sums = Inr g \<and> mo = Some g)"
    by metis
  note a' = h(8) [unfolded mo b_def]
  show ?thesis
    using h(1-4) cases h(6,7) a' by blast
qed


section \<open>The example session\<close>

lemma analyze_meesho_example:
  "analyze_meesho_data example_session =
     (Inr (Some meesho_example_analysis),
      example_session\<lparr>meesho_sales := Some meesho_example_after\<rparr>)"
  by code_simp

lemma analyze_amazon_example:
  "analyze_amazon_data example_session = (Inr (Some amazon_example_analysis), example_session)"
  by code_simp

section \<open>Rounding\<close>




lemma to_period_M_length: "to_period_M ds = Inr ps \<Longrightarrow> length ps = length ds"
  by (induction ds arbitrary: ps rule: to_period_M.induct) (auto split: sum.splits)

lemma grouped_sums_rounded_groups_of:
  assumes "grouped_sums_rounded t key cs = Inr g"
  shows "\<exists>ks. get_column t key = Inr ks \<and> groups_of g ks"
proof -
  from grouped_sums_rounded_keys [OF assms] obtain ks where
    "get_column t key = Inr ks" "map fst g = group_keys ks" by blast
  then show ?thesis
    using group_keys_distinct [of ks] group_keys_set [of ks] by (auto simp: groups_of_def)
qed

lemma month_table_other:
  assumes "get_column t d = Inr ds" and "to_period_M ds = Inr ps" and "c \<noteq> ''month''"
  shows "get_column (set_column t ''month'' ps) c = get_column t c"
proof -
  have "length ps = length (rows t)"
    using assms(1,2) get_column_length to_period_M_length by fastforce
  then show ?thesis using get_column_set_column_other [OF assms(3)] by blast
qed

lemma month_table_month:
  assumes "get_column t d = Inr ds" and "to_period_M ds = Inr ps"
  shows "get_column (set_column t ''month'' ps) ''month'' = Inr ps"
proof -
  have "length ps = length (rows t)"
    using assms get_column_length to_period_M_length by fastforce
  then show ?thesis by (rule get_column_set_column_same)
qed

lemma meesho_group_keys:
  assumes "analyze_meesho_data st = (Inr (Some a), st')" and "meesho_sales st = Some t"
  shows "(\<exists>ks g. get_column t ''end_customer_state_new'' = Inr ks \<and> state_wise a = Some g \<and>
            groups_of g ks) \<and>
         (\<exists>ks g. get_column t ''hsn_code'' = Inr ks \<and> product_performance a = Some g \<and>
            groups_of g ks) \<and>
         (\<exists>ks g. get_column t ''gst_rate'' = Inr ks \<and> tax_rate_analysis a = Some g \<and>
            groups_of g ks) \<and>
         (if ''order_date'' \<in> set (columns t) then
            \<exists>ds ps g. get_column t ''order_date'' = Inr ds \<and> to_period_M ds = Inr ps \<and>
              monthly a = Some g \<and> groups_of g ps
          else monthly a = None)"
proof -
  from analyze_meesho_data_Some [OF assms(1)] assms(2) obtain t' sales tax taxable g1 mo g3 g4 where
    g1: "grouped_sums_rounded t ''end_customer_state_new'' meesho_sums = Inr g1"
    and mo: "(''order_date'' \<notin> set (columns t) \<and> t' = t \<and> mo = None) \<or>
            (\<exists>ds ps g. ''order_date'' \<in> set (columns t) \<and>
               get_column t ''order_date'' = Inr ds \<and> to_period_M ds = Inr ps \<and>
               t' = set_column t ''month'' ps \<and>
               grouped_sums_rounded t' ''month'' meesho_sums = Inr g \<and> mo = Some g)"
    and g3: "grouped_sums_rounded t' ''hsn_code'' meesho_sums = Inr g3"
    and g4: "grouped_sums_rounded t' ''gst_rate'' meesho_sums = Inr g4"
    and a: "a = no_keys\<lparr>total_orders := Some (len t), total_sales := Some sales,
                       total_tax := Some tax, taxable_sales := Some taxable,
                       state_wise := Some g1, monthly := mo,
                       product_performance := Some g3, tax_rate_analysis := Some g4\<rparr>"
    by auto
  have f: "state_wise a = Some g1" "monthly a = mo" "product_performance a = Some g3"
    "tax_rate_analysis a = Some g4" unfolding a by simp_all
  have same: "get_column t' c = get_column t c" if "c \<noteq> ''month''" for c
    using mo month_table_other [OF _ _ that] by auto
  have 1: "\<exists>ks g. get_column t ''end_customer_state_new'' = Inr ks \<and> state_wise a = Some g \<and>
            groups_of g ks"
    using grouped_sums_rounded_groups_of [OF g1] f(1) by auto
  have 2: "\<exists>ks g. get_column t ''hsn_code'' = Inr ks \<and> product_performance a = Some g \<and>
            groups_of g ks"
    using grouped_sums_rounded_groups_of [OF g3] f(3) same [of "''hsn_code''"] by auto
  have 3: "\<exists>ks g. get_column t ''gst_rate'' = Inr ks \<and> tax_rate_analysis a = Some g \<and>
            groups_of g ks"
    using grouped_sums_rounded_groups_of [OF g4] f(4) same [of "''gst_rate''"] by auto
  have 4: "if ''order_date'' \<in> set (columns t) then
            \<exists>ds ps g. get_column t ''order_date'' = Inr ds \<and> to_period_M ds = Inr ps \<and>
              monthly a = Some g \<and> groups_of g ps
          else monthly a = None"
  proof (cases "''order_date'' \<in> set (columns t)")
    case False
    then show ?thesis using mo f(2) by auto
  next
    case True
    then obtain ds ps g where m: "get_column t ''order_date'' = Inr ds" "to_period_M ds = Inr ps"
      "t' = set_column t ''month'' ps" "grouped_sums_rounded t' ''month'' meesho_sums = Inr g"
      "mo = Some g" using mo by auto
    have "get_column t' ''month'' = Inr ps"
      unfolding m(3) using month_table_month [OF m(1,2)] .
    then have "groups_of g ps" using grouped_sums_rounded_groups_of [OF m(4)] by auto
    then show ?thesis using True m f(2) by auto
  qed
  show ?thesis using 1 2 3 4 by blast
qed


lemma amazon_group_keys:
  assumes "analyze_amazon_data st = (Inr (Some b), st')" and "amazon_data st = Some u"
    and "select_eq u ''Transaction Type'' ''Shipment'' = Inr s" and "\<not> empty s"
  shows "(\<exists>ks g. get_column s ''Ship To State'' = Inr ks \<and> state_wise b = Some g \<and>
            groups_of g ks) \<and>
         (\<exists>ks g. get_column s ''Hsn/sac'' = Inr ks \<and> product_performance b = Some g \<and>
            groups_of g ks) \<and>
         (if ''Order Date'' \<in> set (columns s) then
            \<exists>ds ps g. get_column s ''Order Date'' = Inr ds \<and> to_period_M ds = Inr ps \<and>
              monthly b = Some g \<and> groups_of g ps
          else monthly b = None)"
proof -
  from analyze_amazon_data_Some [OF assms(1)] assms(2,3,4) obtain r c where
    m: "amazon_shipment_metrics s
                (no_keys\<lparr>total_shipments := Some (len s),
                         total_refunds := Some (len r),
                         total_cancellations := Some (len c)\<rparr>) = Inr b"
    by auto
  have n: "monthly (no_keys\<lparr>total_shipments := Some (len s),
                         total_refunds := Some (len r),
                         total_cancellations := Some (len c)\<rparr>) = None" by simp
  from amazon_shipment_metrics_full [OF m n] obtain sales tax gross g1 mo s' g3 tcs_data where
    g1: "grouped_sums_rounded s ''Ship To State'' amazon_sums = Inr g1"
    and mo: "(''Order Date'' \<notin> set (columns s) \<and> s' = s \<and> mo = None) \<or>
            (\<exists>ds ps g. ''Order Date'' \<in> set (columns s) \<and>
               get_column s ''Order Date'' = Inr ds \<and> to_period_M ds = Inr ps \<and>
               s' = set_column s ''month'' ps \<and>
               grouped_sums_rounded s' ''month'' amazon_sums = Inr g \<and> mo = Some g)"
    and g3: "grouped_sums_rounded s' ''Hsn/sac'' amazon_sums = Inr g3"
    and b: "b = no_keys\<lparr>total_shipments := Some (len s),
                         total_refunds := Some (len r),
                         total_cancellations := Some (len c), total_sales := Some sales, total_tax := Some tax,
                   tax_exclusive_gross := Some gross, state_wise := Some g1, monthly := mo,
                   product_performance := Some g3, total_tcs := Some (sum_list tcs_data)\<rparr>"
    by blast
  have f: "state_wise b = Some g1" "monthly b = mo" "product_performance b = Some g3"
    unfolding b by simp_all
  have same: "get_column s' k = get_column s k" if "k \<noteq> ''month''" for k
    using mo month_table_other [OF _ _ that] by auto
  have 1: "\<exists>ks g. get_column s ''Ship To State'' = Inr ks \<and> state_wise b = Some g \<and>
            groups_of g ks"
    using grouped_sums_rounded_groups_of [OF g1] f(1) by auto
  have 2: "\<exists>ks g. get_column s ''Hsn/sac'' = Inr ks \<and> product_performance b = Some g \<and>
            groups_of g ks"
    using grouped_sums_rounded_groups_of [OF g3] f(3) same [of "''Hsn/sac''"] by auto
  have 3: "if ''Order Date'' \<in> set (columns s) then
            \<exists>ds ps g. get_column s ''Order Date'' = Inr ds \<and> to_period_M ds = Inr ps \<and>
              monthly b = Some g \<and> groups_of g ps
          else monthly b = None"
  proof (cases "''Order Date'' \<in> set (columns s)")
    case False
    then show ?thesis using mo f(2) by auto
  next
    case True
    then obtain ds ps g where k: "get_column s ''Order Date'' = Inr ds" "to_period_M ds = Inr ps"
      "s' = set_column s ''month'' ps" "grouped_sums_rounded s' ''month'' amazon_sums = Inr g"
      "mo = Some g" using mo by auto
    have "get_column s' ''month'' = Inr ps"
      unfolding k(3) using month_table_month [OF k(1,2)] .
    then have "groups_of g ps" using grouped_sums_rounded_groups_of [OF k(4)] by auto
    then show ?thesis using True k f(2) by auto
  qed
  show ?thesis using 1 2 3 by blast
qed

lemma amazon_example_select:
  "amazon_data example_session = Some amazon_example \<and>
   select_eq amazon_example ''Transaction Type'' ''Shipment'' = Inr amazon_example_shipments \<and>
   \<not> empty amazon_example_shipments"
  by code_simp

section \<open>The groups of a grouped table\<close>

text \<open>
  Claim C2, as the code has it. Every grouped table of a successful analysis has exactly
  one group for each distinct value of its grouping column that is not missing: the state,
  the product code and the tax rate of the Meesho table, the state and the product code of
  the Amazon shipments, and in both the month of the order date when the table has that
  column. Rows whose grouping value is missing belong to no group.
\<close>

theorem grouped_keys:
  "(analyze_meesho_data st = (Inr (Some a), st') \<and> meesho_sales st = Some t \<longrightarrow>
      (\<exists>ks g. get_column t ''end_customer_state_new'' = Inr ks \<and> state_wise a = Some g \<and>
         groups_of g ks) \<and>
      (\<exists>ks g. get_column t ''hsn_code'' = Inr ks \<and> product_performance a = Some g \<and>
         groups_of g ks) \<and>
      (\<exists>ks g. get_column t ''gst_rate'' = Inr ks \<and> tax_rate_analysis a = Some g \<and>
         groups_of g ks) \<and>
      (if ''order_date'' \<in> set (columns t) then
         \<exists>ds ps g. get_column t ''order_date'' = Inr ds \<and> to_period_M ds = Inr ps \<and>
           monthly a = Some g \<and> groups_of g ps
       else monthly a = None)) \<and>
   (analyze_amazon_data st = (Inr (Some b), st'') \<and> amazon_data st = Some u \<and>
    select_eq u ''Transaction Type'' ''Shipment'' = Inr s \<and> \<not> empty s \<longrightarrow>
      (\<exists>ks g. get_column s ''Ship To State'' = Inr ks \<and> state_wise b = Some g \<and>
         groups_of g ks) \<and>
      (\<exists>ks g. get_column s ''Hsn/sac'' = Inr ks \<and> product_performance b = Some g \<and>
         groups_of g ks) \<and>
      (if ''Order Date'' \<in> set (columns s) then
         \<exists>ds ps g. get_column s ''Order Date'' = Inr ds \<and> to_period_M ds = Inr ps \<and>
           monthly b = Some g \<and> groups_of g ps
       else monthly b = None))"
proof (rule conjI; rule impI)
  assume "analyze_meesho_data st = (Inr (Some a), st') \<and> meesho_sales st = Some t"
  then have "analyze_meesho_data st = (Inr (Some a), st')" "meesho_sales st = Some t" by simp_all
  then show "(\<exists>ks g. get_column t ''end_customer_state_new'' = Inr ks \<and> state_wise a = Some g \<and>
         groups_of g ks) \<and>
      (\<exists>ks g. get_column t ''hsn_code'' = Inr ks \<and> product_performance a = Some g \<and>
         groups_of g ks) \<and>
      (\<exists>ks g. get_column t ''gst_rate'' = Inr ks \<and> tax_rate_analysis a = Some g \<and>
         groups_of g ks) \<and>
      (if ''order_date'' \<in> set (columns t) then
         \<exists>ds ps g. get_column t ''order_date'' = Inr ds \<and> to_period_M ds = Inr ps \<and>
           monthly a = Some g \<and> groups_of g ps
       else monthly a = None)"
    by (rule meesho_group_keys)
next
  assume "analyze_amazon_data st = (Inr (Some b), st'') \<and> amazon_data st = Some u \<and>
    select_eq u ''Transaction Type'' ''Shipment'' = Inr s \<and> \<not> empty s"
  then have "analyze_amazon_data st = (Inr (Some b), st'')" "amazon_data st = Some u"
    "select_eq u ''Transaction Type'' ''Shipment'' = Inr s" "\<not> empty s" by simp_all
  then show "(\<exists>ks g. get_column s ''Ship To State'' = Inr ks \<and> state_wise b = Some g \<and>
         groups_of g ks) \<and>
      (\<exists>ks g. get_column s ''Hsn/sac'' = Inr ks \<and> product_performance b = Some g \<and>
         groups_of g ks) \<and>
      (if ''Order Date'' \<in> set (columns s) then
         \<exists>ds ps g. get_column s ''Order Date'' = Inr ds \<and> to_period_M ds = Inr ps \<and>
           monthly b = Some g \<and> groups_of g ps
       else monthly b = None)"
    by (rule amazon_group_keys)
qed

theorem grouped_keys_witness:
  "analyze_meesho_data example_session =
     (Inr (Some meesho_example_analysis),
      example_session\<lparr>meesho_sales := Some meesho_example_after\<rparr>) \<and>
   meesho_sales example_session = Some meesho_example \<and>
   analyze_amazon_data example_session = (Inr (Some amazon_example_analysis), example_session) \<and>
   amazon_data example_session = Some amazon_example \<and>
   select_eq amazon_example ''Transaction Type'' ''Shipment'' = Inr amazon_example_shipments \<and>
   \<not> empty amazon_example_shipments \<and>
   groups_of [(Str ''MH'', [200, 36, 1]), (Str ''UP'', [150, 27, 3])]
     [Str ''UP'', Str ''UP'', Str ''MH''] \<and>
   groups_of [(Str ''DELHI'', [100, 18, 1]), (Str ''KERALA'', [200, 36, 2])]
     [Str ''DELHI'', Str ''KERALA'']"
proof -
  have m: "meesho_sales example_session = Some meesho_example" by code_simp
  have c1: "get_column meesho_example ''end_customer_state_new'' =
              Inr [Str ''UP'', Str ''UP'', Str ''MH'']" by code_simp
  have s1: "state_wise meesho_example_analysis =
              Some [(Str ''MH'', [200, 36, 1]), (Str ''UP'', [150, 27, 3])]"
    by (simp add: meesho_example_analysis_def)
  have c2: "get_column amazon_example_shipments ''Ship To State'' =
              Inr [Str ''DELHI'', Str ''KERALA'']" by code_simp
  have s2: "state_wise amazon_example_analysis =
              Some [(Str ''DELHI'', [100, 18, 1]), (Str ''KERALA'', [200, 36, 2])]"
    by (simp add: amazon_example_analysis_def)
  from grouped_keys [of example_session meesho_example_analysis
      "example_session\<lparr>meesho_sales := Some meesho_example_after\<rparr>" meesho_example
      amazon_example_analysis example_session amazon_example amazon_example_shipments]
    analyze_meesho_example analyze_amazon_example amazon_example_select m
  have "(\<exists>ks g. get_column meesho_example ''end_customer_state_new'' = Inr ks \<and>
           state_wise meesho_example_analysis = Some g \<and> groups_of g ks) \<and>
        (\<exists>ks g. get_column amazon_example_shipments ''Ship To State'' = Inr ks \<and>
           state_wise amazon_example_analysis = Some g \<and> groups_of g ks)"
    by blast
  then have "groups_of [(Str ''MH'', [200, 36, 1]), (Str ''UP'', [150, 27, 3])]
     [Str ''UP'', Str ''UP'', Str ''MH''] \<and>
   groups_of [(Str ''DELHI'', [100, 18, 1]), (Str ''KERALA'', [200, 36, 2])]
     [Str ''DELHI'', Str ''KERALA'']"
    unfolding c1 s1 c2 s2 by simp
  then show ?thesis
    using analyze_meesho_example analyze_amazon_example amazon_example_select m by blast
qed

text \<open>
  The claim as it was stated fails on a missing key: the third order of this Meesho table
  has no state, and the state-wise table has the one group of the other two orders.
\<close>

theorem null_state_rows_dropped:
  "get_column meesho_null_state ''end_customer_state_new'' = Inr [Str ''UP'', Str ''UP'', NaN] \<and>
   map_sum id (map_option (map_option (map fst) \<circ> state_wise))
     (fst (analyze_meesho_data (init\<lparr>meesho_sales := Some meesho_null_state\<rparr>))) =
   Inr (Some (Some [Str ''UP'']))"
  by code_simp










section \<open>Conservation of totals\<close>












section \<open>The partition of the Amazon rows\<close>










section \<open>The rows of the comparison\<close>






lemma length_to_datetime [simp]: "length (to_datetime parse vs) = length vs"
  by (simp add: to_datetime_def)

lemma convert_dates_columns [simp]: "columns (convert_dates parse c t) = columns t"
  by (auto simp: convert_dates_def columns_set_column split: sum.splits)




lemma fold_convert_dates_columns [simp]:
  "columns (fold (convert_dates parse) cs t) = columns t"
  by (induction cs arbitrary: t) simp_all

section \<open>Dates that do not parse\<close>















section \<open>Running an analyzer again\<close>













section \<open>Missing columns\<close>




end
